theory Spec2Isabelle
  imports Main
begin

section \<open>The adapter class \<open>GPTTokenizerFast\<close> (tokenization_gpt_fast.py)\<close>

subsection \<open>Module constants\<close>

text \<open>
  The three module-level dictionaries. A Python dict literal is an association list;
  lookups go through \<open>map_of\<close>.
\<close>

definition VOCAB_FILES_NAMES :: "(string \<times> string) list" where
  "VOCAB_FILES_NAMES =
     [(''vocab_file'', ''vocab.json''),
      (''merges_file'', ''merges.txt''),
      (''tokenizer_file'', ''tokenizer.json'')]"

definition PRETRAINED_VOCAB_FILES_MAP :: "(string \<times> (string \<times> string) list) list" where
  "PRETRAINED_VOCAB_FILES_MAP =
     [(''vocab_file'', [(''openai-gpt'', ''https://hf-mirror.com/openai-gpt/resolve/main/vocab.json'')]),
      (''merges_file'', [(''openai-gpt'', ''https://hf-mirror.com/openai-gpt/resolve/main/merges.txt'')]),
      (''tokenizer_file'', [(''openai-gpt'', ''https://hf-mirror.com/openai-gpt/resolve/main/tokenizer.json'')])]"

definition PRETRAINED_POSITIONAL_EMBEDDINGS_SIZES :: "(string \<times> int) list" where
  "PRETRAINED_POSITIONAL_EMBEDDINGS_SIZES = [(''openai-gpt'', 512)]"

subsection \<open>Class attributes\<close>

definition vocab_files_names :: "(string \<times> string) list" where
  "vocab_files_names = VOCAB_FILES_NAMES"

definition pretrained_vocab_files_map :: "(string \<times> (string \<times> string) list) list" where
  "pretrained_vocab_files_map = PRETRAINED_VOCAB_FILES_MAP"

definition max_model_input_sizes :: "(string \<times> int) list" where
  "max_model_input_sizes = PRETRAINED_POSITIONAL_EMBEDDINGS_SIZES"

definition model_input_names :: "string list" where
  "model_input_names = [''input_ids'', ''attention_mask'']"

subsection \<open>The constructor\<close>

text \<open>
  \<^verbatim>\<open>def __init__(self, vocab_file=None, merges_file=None, tokenizer_file=None,
               unk_token="<unk>", **kwargs)\<close>

  A parameter with a default is either left out by the caller or given a value. The three
  path parameters hold a path or Python's \<open>None\<close>, so their values are \<open>string option\<close>;
  \<open>kwargs\<close> is the dictionary of the remaining keyword arguments. The body makes one
  call, \<^verbatim>\<open>super().__init__(vocab_file, merges_file, tokenizer_file=tokenizer_file,
  unk_token=unk_token, **kwargs)\<close>; the base class is not part of this file, so the model of
  the constructor is the argument record it hands to the base class.
\<close>

datatype 'a arg = Omitted | Given 'a

fun arg_or :: "'a arg \<Rightarrow> 'a \<Rightarrow> 'a" where
  "arg_or Omitted d = d"
| "arg_or (Given v) d = v"

record super_init_call =
  vocab_file :: "string option"
  merges_file :: "string option"
  tokenizer_file :: "string option"
  unk_token :: "string option"
  kwargs :: "(string \<times> string) list"

definition init ::
  "string option arg \<Rightarrow> string option arg \<Rightarrow> string option arg \<Rightarrow> string option arg
     \<Rightarrow> (string \<times> string) list \<Rightarrow> super_init_call" where
  "init vocab_file_arg merges_file_arg tokenizer_file_arg unk_token_arg kw =
     \<lparr> vocab_file = arg_or vocab_file_arg None,
       merges_file = arg_or merges_file_arg None,
       tokenizer_file = arg_or tokenizer_file_arg None,
       unk_token = arg_or unk_token_arg (Some ''<unk>''),
       kwargs = kw \<rparr>"

subsection \<open>Instances, \<open>do_lower_case\<close> and \<open>save_vocabulary\<close>\<close>

text \<open>
  The file system is a map from paths to file contents. Saving either raises or returns
  the list of written paths, and in both cases leaves a file system behind.

  \<open>self._tokenizer.model\<close> is the backend model object held by the instance. Its class is
  not part of this file; the only thing \<open>save_vocabulary\<close> uses of it is its method
  \<open>save(directory, name=prefix)\<close>, which is therefore a field of the object.
\<close>

type_synonym filesystem = "string \<rightharpoonup> string"

datatype io_error = IOError string

type_synonym save_method =
  "string \<Rightarrow> string option \<Rightarrow> filesystem \<Rightarrow> (io_error + string list) \<times> filesystem"

record backend_model =
  save :: save_method

record backend_tokenizer =
  model :: backend_model

record GPTTokenizerFast =
  init_call :: super_init_call
  tokenizer :: backend_tokenizer

definition do_lower_case :: "GPTTokenizerFast \<Rightarrow> bool" where
  "do_lower_case self = True"

text \<open>Python's \<open>tuple(files)\<close>: the same elements in the same order.\<close>

definition tuple :: "'a list \<Rightarrow> 'a list" where
  "tuple xs = xs"

text \<open>
  \<^verbatim>\<open>files = self._tokenizer.model.save(save_directory, name=filename_prefix)
  return tuple(files)\<close>

  An exception of \<open>save\<close> is not caught, so it leaves \<open>save_vocabulary\<close> with the file
  system as \<open>save\<close> left it.
\<close>

definition save_vocabulary ::
  "GPTTokenizerFast \<Rightarrow> string \<Rightarrow> string option \<Rightarrow> filesystem
     \<Rightarrow> (io_error + string list) \<times> filesystem" where
  "save_vocabulary self save_directory filename_prefix fs =
     (case save (model (tokenizer self)) save_directory filename_prefix fs of
        (Inl e, fs') \<Rightarrow> (Inl e, fs')
      | (Inr files, fs') \<Rightarrow> (Inr (tuple files), fs'))"

subsection \<open>What a call of \<open>save_vocabulary\<close> wrote\<close>

text \<open>
  A path was written by a call when its content after the call differs from its content
  before. A call is all-or-nothing for a vocabulary path and a merges path when it wrote
  both of them or neither.
\<close>

definition written :: "filesystem \<Rightarrow> filesystem \<Rightarrow> string \<Rightarrow> bool" where
  "written fs fs' p = (fs' p \<noteq> fs p)"

definition all_or_nothing :: "filesystem \<Rightarrow> filesystem \<Rightarrow> string \<Rightarrow> string \<Rightarrow> bool" where
  "all_or_nothing fs fs' vocab_path merges_path =
     (written fs fs' vocab_path = written fs fs' merges_path)"

subsection \<open>File names\<close>

text \<open>
  The path of a saved file: a file name of \<open>VOCAB_FILES_NAMES\<close> in the directory,
  after \<open>prefix-\<close> when a prefix is given. The file itself does not build paths (the
  backend does); the examples and the engine below use this one.
\<close>

definition file_path :: "string \<Rightarrow> string option \<Rightarrow> string \<Rightarrow> string" where
  "file_path directory prefix name =
     directory @ ''/'' @ (case prefix of None \<Rightarrow> [] | Some p \<Rightarrow> p @ ''-'') @ name"

subsection \<open>An example backend model\<close>

text \<open>
  \<open>save_vocabulary\<close> works with any object in \<open>self._tokenizer.model\<close> that has a
  \<open>save\<close> method. The following one is an input for the examples below, not a part of
  the class: it writes the vocabulary file, then the merges file, and raises at the first
  path of \<open>readonly\<close> it is asked to write.
\<close>

definition write_file ::
  "string list \<Rightarrow> string \<Rightarrow> string \<Rightarrow> filesystem \<Rightarrow> io_error + filesystem" where
  "write_file readonly p content fs =
     (if p \<in> set readonly then Inl (IOError p) else Inr (fs(p \<mapsto> content)))"

definition two_step_save :: "string list \<Rightarrow> string \<Rightarrow> string \<Rightarrow> save_method" where
  "two_step_save readonly vocab_text merges_text directory prefix fs =
     (let vp = file_path directory prefix ''vocab.json'';
          mp = file_path directory prefix ''merges.txt''
      in case write_file readonly vp vocab_text fs of
           Inl e \<Rightarrow> (Inl e, fs)
         | Inr fs1 \<Rightarrow>
             (case write_file readonly mp merges_text fs1 of
                Inl e \<Rightarrow> (Inl e, fs1)
              | Inr fs2 \<Rightarrow> (Inr [vp, mp], fs2)))"

definition example_tokenizer :: "string list \<Rightarrow> GPTTokenizerFast" where
  "example_tokenizer readonly =
     \<lparr> init_call = init Omitted Omitted Omitted Omitted [],
       tokenizer = \<lparr> model = \<lparr> save = two_step_save readonly ''{}'' ''#version: 0.2'' \<rparr> \<rparr> \<rparr>"

text \<open>
  A second backend for the examples: it saves the three files that \<open>VOCAB_FILES_NAMES\<close>
  names and returns their three paths.
\<close>

definition three_file_save :: "string \<Rightarrow> string \<Rightarrow> string \<Rightarrow> save_method" where
  "three_file_save vocab_text merges_text tokenizer_text directory prefix fs =
     (let vp = file_path directory prefix ''vocab.json'';
          mp = file_path directory prefix ''merges.txt'';
          tp = file_path directory prefix ''tokenizer.json''
      in (Inr [vp, mp, tp],
          fs(vp \<mapsto> vocab_text, mp \<mapsto> merges_text, tp \<mapsto> tokenizer_text)))"

definition three_file_tokenizer :: GPTTokenizerFast where
  "three_file_tokenizer =
     \<lparr> init_call = init Omitted Omitted Omitted Omitted [],
       tokenizer = \<lparr> model = \<lparr> save = three_file_save ''{}'' ''#version: 0.2'' ''{}'' \<rparr> \<rparr> \<rparr>"

section \<open>The tokenizer engine behind the adapter\<close>

text \<open>
  \<open>GPTTokenizerFast\<close> hands encoding, decoding and the persistence of its tables to an
  engine that is not part of tokenization_gpt_fast.py. The definitions of this section
  describe that engine as the specification designs it (vocabulary table, merge-rank
  table, BPE encoder, persistence of the two tables); none of them is taken from the
  file above.
\<close>

subsection \<open>Tables\<close>

text \<open>
  Modelled from the spec: the error taxonomy of the engine (section 7), which the file
  does not contain: \<open>FormatError\<close>, \<open>DuplicateIdError\<close>, \<open>DuplicateRuleError\<close>
  and \<open>IOError\<close>.
\<close>

datatype engine_error = FormatError | DuplicateIdError | DuplicateRuleError | EngineIOError

text \<open>
  Modelled from the spec: the Vocabulary Table (section 3), absent from the file: the
  entries token, id of the mapping from token strings to non-negative integer ids.
\<close>

type_synonym vocabulary_table = "(string \<times> nat) list"

text \<open>
  Modelled from the spec: the Merge Rank Table (section 3), absent from the file: the
  entries (left, right), rank of the mapping from symbol pairs to ranks.
\<close>

type_synonym merge_rank_table = "((string \<times> string) \<times> nat) list"

text \<open>
  Modelled from the spec: \<open>tokenToId(token) -> Optional<TokenId>\<close> of the Vocabulary
  Table (section 4.1), absent from the file.
\<close>

definition tokenToId :: "vocabulary_table \<Rightarrow> string \<Rightarrow> nat option" where
  "tokenToId v tok = map_of v tok"

text \<open>
  Modelled from the spec: \<open>rankOf(left, right) -> Optional<int>\<close> of the Merge Rank
  Table (section 4.2), absent from the file.
\<close>

definition rankOf :: "merge_rank_table \<Rightarrow> string \<Rightarrow> string \<Rightarrow> nat option" where
  "rankOf t left right = map_of t (left, right)"

subsection \<open>The BPE encoder\<close>

text \<open>
  Modelled from the spec: the initial state of the encoder's state machine (section 4.4),
  absent from the file: the word split into individual characters, with the word-final
  marker appended to the last character. A word without characters has no symbols.
\<close>

fun word_symbols :: "string \<Rightarrow> string \<Rightarrow> string list" where
  "word_symbols marker [] = []"
| "word_symbols marker [c] = [c # marker]"
| "word_symbols marker (c # cs) = [c] # word_symbols marker cs"

text \<open>
  Modelled from the spec: the scan of one transition (section 4.4), absent from the
  file: every adjacent pair of the symbol sequence is looked up in the Merge Rank Table,
  and the position and rank of the pair to merge are returned, or \<open>None\<close> when no pair
  has a rule. A pair further right replaces the candidate only with a strictly lower
  rank (the leftmost pair wins a tie, section 4.2).
\<close>

fun lowest_pair :: "merge_rank_table \<Rightarrow> string list \<Rightarrow> (nat \<times> nat) option" where
  "lowest_pair t (a # b # xs) =
     (case rankOf t a b of
        None \<Rightarrow>
          (case lowest_pair t (b # xs) of
             None \<Rightarrow> None
           | Some (j, q) \<Rightarrow> Some (Suc j, q))
      | Some r \<Rightarrow>
          (case lowest_pair t (b # xs) of
             None \<Rightarrow> Some (0, r)
           | Some (j, q) \<Rightarrow> if q < r then Some (Suc j, q) else Some (0, r)))"
| "lowest_pair t xs = None"

text \<open>
  Modelled from the spec: the merge of one transition (section 4.4), absent from the
  file: the two symbols at positions \<open>i\<close> and \<open>i + 1\<close> become one new symbol, their
  concatenation. A position without a right neighbour leaves the sequence as it is.
\<close>

fun merge_at :: "nat \<Rightarrow> string list \<Rightarrow> string list" where
  "merge_at 0 (a # b # xs) = (a @ b) # xs"
| "merge_at (Suc i) (a # xs) = a # merge_at i xs"
| "merge_at i xs = xs"

text \<open>
  Modelled from the spec: one transition of the encoder's state machine (section 4.4),
  absent from the file: select the pair, merge it; \<open>None\<close> when no pair has a rule.
\<close>

definition merge_step :: "merge_rank_table \<Rightarrow> string list \<Rightarrow> string list option" where
  "merge_step t xs =
     (case lowest_pair t xs of None \<Rightarrow> None | Some (i, r) \<Rightarrow> Some (merge_at i xs))"

lemma lowest_pair_in_range: "lowest_pair t xs = Some (i, r) \<Longrightarrow> Suc i < length xs"
  by (induction t xs arbitrary: i r rule: lowest_pair.induct)
     (auto split: option.splits if_splits)

lemma length_merge_at: "Suc i < length xs \<Longrightarrow> Suc (length (merge_at i xs)) = length xs"
  by (induction i xs rule: merge_at.induct) auto

lemma merge_step_shorter: "merge_step t xs = Some ys \<Longrightarrow> Suc (length ys) = length xs"
  by (auto simp: merge_step_def split: option.splits
      dest!: lowest_pair_in_range length_merge_at)

text \<open>
  Modelled from the spec: the merge loop (section 4.4), absent from the file: repeat the
  transition until no adjacent pair has a known rank. The result is the final symbol
  sequence together with the number of merge steps taken. Every step shortens the
  sequence by one symbol, which is the termination argument.
\<close>

function merge_loop :: "merge_rank_table \<Rightarrow> string list \<Rightarrow> string list \<times> nat" where
  "merge_loop t xs =
     (case merge_step t xs of
        None \<Rightarrow> (xs, 0)
      | Some ys \<Rightarrow> (case merge_loop t ys of (zs, n) \<Rightarrow> (zs, Suc n)))"
  by pat_completeness auto
termination
  by (relation "measure (\<lambda>(t, xs). length xs)") (auto dest: merge_step_shorter)

declare merge_loop.simps [simp del]

text \<open>
  Modelled from the spec: the engine built by \<open>construct\<close> (sections 3 and 6), absent
  from the file: the two tables, the configured unknown-token id, the word-final marker
  and the pre-tokenizer. The rule set of the pre-tokenizer is left open by the spec
  (section 9), so the pre-tokenizer is a component of the engine.
\<close>

record engine =
  vocab :: vocabulary_table
  ranks :: merge_rank_table
  unk_id :: nat
  end_marker :: string
  pre_tokenize :: "string \<Rightarrow> string list"

text \<open>
  Modelled from the spec: the lookup of a resulting symbol (section 4.4), absent from
  the file: its id in the Vocabulary Table, and on a miss the configured unknown-token
  id.
\<close>

definition token_id :: "engine \<Rightarrow> string \<Rightarrow> nat" where
  "token_id e s = (case tokenToId (vocab e) s of Some i \<Rightarrow> i | None \<Rightarrow> unk_id e)"

text \<open>
  Modelled from the spec: the BPE encoder on one word unit (section 4.4), absent from
  the file: the symbols the merge loop ends with.
\<close>

definition bpe :: "engine \<Rightarrow> string \<Rightarrow> string list" where
  "bpe e w = fst (merge_loop (ranks e) (word_symbols (end_marker e) w))"

text \<open>
  Modelled from the spec: \<open>encode(text) -> sequence<TokenId>\<close> (sections 2 and 6),
  absent from the file: pre-tokenize, encode each word unit, look every symbol up.
\<close>

definition encode :: "engine \<Rightarrow> string \<Rightarrow> engine_error + nat list" where
  "encode e text =
     Inr (concat (map (\<lambda>w. map (token_id e) (bpe e w)) (pre_tokenize e text)))"

subsection \<open>The encoder's state machine, in the words of the spec\<close>

text \<open>
  Modelled from the spec: an adjacent pair with a known rank (section 4.4), absent from
  the file: position \<open>j\<close> has a right neighbour and the pair there has rank \<open>q\<close>.
\<close>

definition has_rank :: "merge_rank_table \<Rightarrow> string list \<Rightarrow> nat \<Rightarrow> nat \<Rightarrow> bool" where
  "has_rank t xs j q = (Suc j < length xs \<and> rankOf t (xs ! j) (xs ! Suc j) = Some q)"

text \<open>
  Modelled from the spec: the selection rule (sections 4.2 and 4.4), absent from the
  file: the pair at \<open>i\<close> has the globally lowest rank \<open>r\<close> among the adjacent pairs
  with a known rank, and is the leftmost pair of that rank.
\<close>

definition lowest_leftmost :: "merge_rank_table \<Rightarrow> string list \<Rightarrow> nat \<Rightarrow> nat \<Rightarrow> bool" where
  "lowest_leftmost t xs i r =
     (has_rank t xs i r \<and> (\<forall>j q. has_rank t xs j q \<longrightarrow> r < q \<or> (r = q \<and> i \<le> j)))"

text \<open>
  Modelled from the spec: the terminal condition (section 4.4), absent from the file: no
  adjacent pair has a known rank.
\<close>

definition no_ranked_pair :: "merge_rank_table \<Rightarrow> string list \<Rightarrow> bool" where
  "no_ranked_pair t xs = (\<forall>j q. \<not> has_rank t xs j q)"

text \<open>
  Modelled from the spec: the transition relation of the state machine (section 4.4),
  absent from the file: from a symbol sequence to the sequence with the selected pair
  merged.
\<close>

inductive bpe_transition :: "merge_rank_table \<Rightarrow> string list \<Rightarrow> string list \<Rightarrow> bool"
  for t :: merge_rank_table where
  merge: "lowest_leftmost t xs i r \<Longrightarrow> bpe_transition t xs (merge_at i xs)"

text \<open>
  Modelled from the spec: a complete run of the state machine (section 4.4), absent from
  the file: transitions from the initial sequence up to a terminal one.
\<close>

inductive bpe_run :: "merge_rank_table \<Rightarrow> string list \<Rightarrow> string list \<Rightarrow> bool"
  for t :: merge_rank_table where
  stop: "no_ranked_pair t xs \<Longrightarrow> bpe_run t xs xs"
| step: "bpe_transition t xs ys \<Longrightarrow> bpe_run t ys zs \<Longrightarrow> bpe_run t xs zs"

text \<open>
  Modelled from the spec: an encode call as a relation between text and ids (sections 2
  and 4.4), absent from the file: some complete run of the state machine on every word
  unit of the text, and the ids of the symbols the runs end with.
\<close>

definition encodes :: "engine \<Rightarrow> string \<Rightarrow> nat list \<Rightarrow> bool" where
  "encodes e text ids =
     (\<exists>symss. list_all2 (\<lambda>w syms. bpe_run (ranks e) (word_symbols (end_marker e) w) syms)
                 (pre_tokenize e text) symss
            \<and> ids = concat (map (map (token_id e)) symss))"

subsection \<open>Persistence of the two tables\<close>

text \<open>
  Modelled from the spec: a JSON document (section 6), absent from the file, as far as
  the vocabulary file needs it: numbers, strings and objects.
\<close>

datatype json = JNumber int | JString string | JObject "(string \<times> json) list"

text \<open>
  Modelled from the spec: the content of the two files (section 6), absent from the
  file: the vocabulary file is a JSON document, the merges file a newline-delimited text.
\<close>

datatype file_content = JsonFile json | TextFile string

text \<open>
  Modelled from the spec: the files the engine loads from and saves to (section 4.5),
  absent from the file: a map from paths to contents.
\<close>

type_synonym engine_files = "string \<rightharpoonup> file_content"

text \<open>
  Modelled from the spec: one member of the vocabulary file (section 6), absent from the
  file: a token string with its integer id, which is not negative (section 3).
\<close>

fun member_entry :: "string \<times> json \<Rightarrow> (string \<times> nat) option" where
  "member_entry (tok, JNumber n) = (if 0 \<le> n then Some (tok, nat n) else None)"
| "member_entry (tok, _) = None"

text \<open>
  Modelled from the spec: the checks of \<open>load\<close> of the Vocabulary Table (section 4.1),
  absent from the file: \<open>FormatError\<close> unless the document is a mapping of strings to
  integers, \<open>DuplicateIdError\<close> if two tokens map to the same id.
\<close>

definition vocab_parse :: "json \<Rightarrow> engine_error + vocabulary_table" where
  "vocab_parse doc =
     (case doc of
        JObject members \<Rightarrow>
          (case those (map member_entry members) of
             None \<Rightarrow> Inl FormatError
           | Some entries \<Rightarrow>
               if \<not> distinct (map fst entries) then Inl FormatError
               else if \<not> distinct (map snd entries) then Inl DuplicateIdError
               else Inr entries)
      | _ \<Rightarrow> Inl FormatError)"

text \<open>
  Modelled from the spec: \<open>load(path) -> VocabularyTable\<close> (section 4.1), absent from
  the file; an unreadable path is an \<open>IOError\<close> (section 7).
\<close>

definition vocab_load :: "string \<Rightarrow> engine_files \<Rightarrow> engine_error + vocabulary_table" where
  "vocab_load path files =
     (case files path of
        None \<Rightarrow> Inl EngineIOError
      | Some (JsonFile doc) \<Rightarrow> vocab_parse doc
      | Some (TextFile txt) \<Rightarrow> Inl FormatError)"

text \<open>
  Modelled from the spec: the member \<open>save\<close> writes for an entry of a Vocabulary Table
  (sections 4.1 and 6), absent from the file: the token with its id as a JSON number.
\<close>

fun entry_member :: "string \<times> nat \<Rightarrow> string \<times> json" where
  "entry_member (tok, i) = (tok, JNumber (int i))"

text \<open>
  Modelled from the spec: the document of a Vocabulary Table (sections 4.1 and 6), absent
  from the file: a JSON object of the members, ordered by id.
\<close>

definition vocab_json :: "vocabulary_table \<Rightarrow> json" where
  "vocab_json v = JObject (map entry_member (sort_key snd v))"

text \<open>
  Modelled from the spec: \<open>save(directory, prefix) -> path\<close> of the Vocabulary Table
  (section 4.1), absent from the file. The file name is the one of \<open>VOCAB_FILES_NAMES\<close>.
\<close>

definition vocab_save ::
  "vocabulary_table \<Rightarrow> string \<Rightarrow> string option \<Rightarrow> engine_files \<Rightarrow> string \<times> engine_files" where
  "vocab_save v directory prefix files =
     (let path = file_path directory prefix ''vocab.json''
      in (path, files(path \<mapsto> JsonFile (vocab_json v))))"

text \<open>
  Modelled from the spec: the fields of a line of the merges file (sections 4.2 and 6),
  absent from the file: the pieces of the line between its separators.
\<close>

fun split_on :: "char \<Rightarrow> string \<Rightarrow> string list" where
  "split_on c [] = [[]]"
| "split_on c (x # xs) =
     (if x = c then [] # split_on c xs
      else (case split_on c xs of
              [] \<Rightarrow> [[x]]
            | y # ys \<Rightarrow> (x # y) # ys))"

text \<open>
  Modelled from the spec: a well-formed line of the merges file (section 4.2), absent
  from the file: exactly two space-separated symbols, left and right.
\<close>

definition parse_rule :: "string \<Rightarrow> (string \<times> string) option" where
  "parse_rule line =
     (case split_on (CHR '' '') line of [left, right] \<Rightarrow> Some (left, right) | _ \<Rightarrow> None)"

text \<open>
  Modelled from the spec: the optional version header of the merges file (sections 4.2
  and 6), absent from the file: a first line that starts with \<open>#version\<close>.
\<close>

definition is_version_header :: "string \<Rightarrow> bool" where
  "is_version_header line = (take 8 line = ''#version'')"

text \<open>
  Modelled from the spec: the Merge Rank Table of a merge list (sections 3 and 4.2),
  absent from the file: the rank of a rule is its position in the list, counted from 0.
\<close>

definition rank_table :: "(string \<times> string) list \<Rightarrow> merge_rank_table" where
  "rank_table rules = zip rules [0..<length rules]"

text \<open>
  Modelled from the spec: the lines of a newline-delimited text (section 6), absent from
  the file: the pieces between the newlines, where a newline at the end of the text
  ends the last line and starts no further one.
\<close>

fun text_lines :: "string \<Rightarrow> string list" where
  "text_lines [] = []"
| "text_lines (x # xs) =
     (if x = CHR 0x0A then [] # text_lines xs
      else (case text_lines xs of
              [] \<Rightarrow> [[x]]
            | l # ls \<Rightarrow> (x # l) # ls))"

text \<open>
  Modelled from the spec: the checks of \<open>load\<close> of the Merge Rank Table (section 4.2),
  absent from the file: a version header in the first line is skipped, every other line
  is a rule whose rank is its 0-based index, \<open>FormatError\<close> on a malformed line,
  \<open>DuplicateRuleError\<close> on a pair that occurs twice.
\<close>

definition merges_parse :: "string list \<Rightarrow> engine_error + merge_rank_table" where
  "merges_parse ls =
     (let body = (case ls of
                    [] \<Rightarrow> []
                  | l # rest \<Rightarrow> if is_version_header l then rest else l # rest)
      in case those (map parse_rule body) of
           None \<Rightarrow> Inl FormatError
         | Some pairs \<Rightarrow>
             if \<not> distinct pairs then Inl DuplicateRuleError
             else Inr (rank_table pairs))"

text \<open>
  Modelled from the spec: \<open>load(path) -> MergeRankTable\<close> (section 4.2), absent from
  the file: the lines of the text are parsed; an unreadable path is an \<open>IOError\<close>
  (section 7).
\<close>

definition merges_load :: "string \<Rightarrow> engine_files \<Rightarrow> engine_error + merge_rank_table" where
  "merges_load path files =
     (case files path of
        None \<Rightarrow> Inl EngineIOError
      | Some (TextFile txt) \<Rightarrow> merges_parse (text_lines txt)
      | Some (JsonFile doc) \<Rightarrow> Inl FormatError)"

text \<open>
  Modelled from the spec: the line of a rule in the merges file (section 6), absent from
  the file: \<open>left right\<close> with one space as separator. The format has no place for
  the rank itself: the line index is the rank.
\<close>

fun rule_line :: "(string \<times> string) \<times> nat \<Rightarrow> string" where
  "rule_line ((left, right), k) = left @ '' '' @ right"

text \<open>
  Modelled from the spec: the lines \<open>save\<close> writes for a Merge Rank Table (sections 4.1,
  6 and 8), absent from the file: the version header, then the lines of the rules in the
  stable order of the ranks.
\<close>

definition merges_lines :: "merge_rank_table \<Rightarrow> string list" where
  "merges_lines m = ''#version: 0.2'' # map rule_line (sort_key snd m)"

text \<open>
  Modelled from the spec: the newline-delimited text of a list of lines (section 6),
  absent from the file: every line is followed by a newline.
\<close>

definition lines_text :: "string list \<Rightarrow> string" where
  "lines_text ls = concat (map (\<lambda>l. l @ [CHR 0x0A]) ls)"

text \<open>
  Modelled from the spec: \<open>save\<close> of the Merge Rank Table (sections 4.5 and 8), absent
  from the file: the lines are written as one text. The file name is the one of
  \<open>VOCAB_FILES_NAMES\<close>.
\<close>

definition merges_save ::
  "merge_rank_table \<Rightarrow> string \<Rightarrow> string option \<Rightarrow> engine_files \<Rightarrow> string \<times> engine_files" where
  "merges_save m directory prefix files =
     (let path = file_path directory prefix ''merges.txt''
      in (path, files(path \<mapsto> TextFile (lines_text (merges_lines m)))))"

text \<open>
  Modelled from the spec: a table with unique ids (sections 3 and 8), absent from the
  file: no key occurs twice, and no id (or rank) is given to two keys.
\<close>

definition unique_ids :: "('a \<times> nat) list \<Rightarrow> bool" where
  "unique_ids t = (distinct (map fst t) \<and> distinct (map snd t))"

text \<open>
  Modelled from the spec: a symbol that a line \<open>left right\<close> of a newline-delimited
  text can carry (section 6), absent from the file: it contains neither the separator of
  the two symbols, a space, nor the separator of the lines, a newline.
\<close>

definition separator_free :: "string \<Rightarrow> bool" where
  "separator_free s = (CHR '' '' \<notin> set s \<and> CHR 0x0A \<notin> set s)"

text \<open>
  Modelled from the spec: a Merge Rank Table whose rules all fit the line format (section
  6), absent from the file: both symbols of every rule are free of the separators.
\<close>

definition symbols_separator_free :: "merge_rank_table \<Rightarrow> bool" where
  "symbols_separator_free m =
     list_all (\<lambda>((left, right), k). separator_free left \<and> separator_free right) m"

subsection \<open>An example engine\<close>

text \<open>
  A small configuration for the examples below: three tokens, two merge rules, the
  marker \<open></w>\<close>, and a pre-tokenizer that only splits at spaces.
\<close>

definition example_vocab :: vocabulary_table where
  "example_vocab = [(''<unk>'', 2), (''ab'', 0), (''c</w>'', 1)]"

definition example_merges :: merge_rank_table where
  "example_merges = [((''ab'', ''c</w>''), 1), ((''a'', ''b''), 0)]"

definition example_engine :: engine where
  "example_engine =
     \<lparr> vocab = example_vocab,
       ranks = example_merges,
       unk_id = 2,
       end_marker = ''</w>'',
       pre_tokenize = (\<lambda>text. filter (\<lambda>w. w \<noteq> []) (split_on (CHR '' '') text)) \<rparr>"

section \<open>Properties of the adapter class\<close>

text \<open>
  Claim C4. The property \<open>do_lower_case\<close> of \<open>GPTTokenizerFast\<close> returns \<open>True\<close> on
  every instance, whatever the instance holds.
\<close>

theorem do_lower_case_always_True: "do_lower_case self = True"
  by (simp add: do_lower_case_def)

text \<open>
  Claim C9. The constructor can be called with \<open>vocab_file\<close>, \<open>merges_file\<close> and
  \<open>tokenizer_file\<close> left out (each is then \<open>None\<close>), and an \<open>unk_token\<close> that is not
  supplied is the string \<open><unk>\<close>, whatever the other arguments are; a supplied
  \<open>unk_token\<close> is passed on as given.
\<close>

theorem init_optional_files_default_unk:
  "init Omitted Omitted Omitted Omitted kw =
     \<lparr> vocab_file = None, merges_file = None, tokenizer_file = None,
       unk_token = Some ''<unk>'', kwargs = kw \<rparr>
   \<and> unk_token (init v m t Omitted kw) = Some ''<unk>''
   \<and> unk_token (init v m t (Given u) kw) = u
   \<and> vocab_file (init (Given vf) m t u' kw) = vf
   \<and> merges_file (init v (Given mf) t u' kw) = mf
   \<and> tokenizer_file (init v m (Given tf) u' kw) = tf"
  by (simp add: init_def)

text \<open>
  Claim C10. The class attribute \<open>max_model_input_sizes\<close> is the dictionary
  \<open>PRETRAINED_POSITIONAL_EMBEDDINGS_SIZES\<close>, whose only entry gives the checkpoint
  \<open>openai-gpt\<close> the size 512.
\<close>

theorem max_model_input_sizes_openai_gpt:
  "max_model_input_sizes = PRETRAINED_POSITIONAL_EMBEDDINGS_SIZES
   \<and> map_of max_model_input_sizes ''openai-gpt'' = Some 512
   \<and> map fst max_model_input_sizes = [''openai-gpt'']"
  by (simp add: max_model_input_sizes_def PRETRAINED_POSITIONAL_EMBEDDINGS_SIZES_def)

text \<open>
  Claim C6, as stated, fails: nothing in \<open>save_vocabulary\<close> makes its result a pair.
  It returns the tuple of whatever list its backend model's \<open>save\<close> returned; with a
  backend that saves three files the successful call returns three paths.
\<close>

theorem save_vocabulary_returns_three_paths:
  "fst (save_vocabulary three_file_tokenizer ''out'' None Map.empty)
     = Inr [''out/vocab.json'', ''out/merges.txt'', ''out/tokenizer.json'']
   \<and> fst (save_vocabulary three_file_tokenizer ''out'' None Map.empty)
     \<noteq> Inr [''out/vocab.json'', ''out/merges.txt'']"
  by (simp add: save_vocabulary_def tuple_def three_file_tokenizer_def three_file_save_def
      file_path_def Let_def)

text \<open>
  Claim C6, amended. A call of \<open>save_vocabulary\<close> succeeds exactly when its backend
  model's \<open>save\<close> succeeds, and then returns the tuple of exactly the paths that
  \<open>save\<close> returned, in the same order. It is the pair of the vocabulary file path and
  the merges file path exactly when these two paths are what the backend returned.
\<close>

theorem save_vocabulary_returns_backend_paths:
  "fst (save_vocabulary self d p fs) = fst (save (model (tokenizer self)) d p fs)
   \<and> (fst (save_vocabulary self d p fs) = Inr [vp, mp])
       = (fst (save (model (tokenizer self)) d p fs) = Inr [vp, mp])"
  by (simp add: save_vocabulary_def tuple_def split: prod.splits sum.splits)

text \<open>
  An instance with a backend that saves the two files: the call returns its pair.
\<close>

theorem save_vocabulary_returns_backend_paths_witness:
  "fst (save (model (tokenizer (example_tokenizer []))) ''out'' (Some ''gpt'') Map.empty)
     = Inr [''out/gpt-vocab.json'', ''out/gpt-merges.txt'']
   \<and> fst (save_vocabulary (example_tokenizer []) ''out'' (Some ''gpt'') Map.empty)
     = Inr [''out/gpt-vocab.json'', ''out/gpt-merges.txt'']"
proof -
  have backend:
    "fst (save (model (tokenizer (example_tokenizer []))) ''out'' (Some ''gpt'') Map.empty)
       = Inr [''out/gpt-vocab.json'', ''out/gpt-merges.txt'']"
    by (simp add: example_tokenizer_def two_step_save_def write_file_def file_path_def Let_def)
  from save_vocabulary_returns_backend_paths
    [of "example_tokenizer []" "''out''" "Some ''gpt''" Map.empty
        "''out/gpt-vocab.json''" "''out/gpt-merges.txt''"]
  show ?thesis using backend by simp
qed

text \<open>
  Claim C5, as stated, fails: \<open>save_vocabulary\<close> has no temporary names, no rename and
  no roll-back of its own. With a backend that writes its two files one after the other
  and a merges path that cannot be written, the call raises and leaves the vocabulary
  file written without the merges file.
\<close>

theorem save_vocabulary_partial_write:
  "fst (save_vocabulary (example_tokenizer [''out/merges.txt'']) ''out'' None Map.empty)
     = Inl (IOError ''out/merges.txt'')
   \<and> written Map.empty
        (snd (save_vocabulary (example_tokenizer [''out/merges.txt'']) ''out'' None Map.empty))
        ''out/vocab.json''
   \<and> \<not> written Map.empty
        (snd (save_vocabulary (example_tokenizer [''out/merges.txt'']) ''out'' None Map.empty))
        ''out/merges.txt''
   \<and> \<not> all_or_nothing Map.empty
        (snd (save_vocabulary (example_tokenizer [''out/merges.txt'']) ''out'' None Map.empty))
        ''out/vocab.json'' ''out/merges.txt''"
  by (simp add: save_vocabulary_def example_tokenizer_def two_step_save_def write_file_def
      file_path_def written_def all_or_nothing_def Let_def)

text \<open>
  Claim C5, amended. \<open>save_vocabulary\<close> leaves the file system exactly as its backend
  model's \<open>save\<close> leaves it, and fails exactly when that \<open>save\<close> fails, with the same
  error. So for any vocabulary path and merges path it is all-or-nothing precisely when
  the backend's \<open>save\<close> is.
\<close>

theorem save_vocabulary_writes_as_backend:
  "snd (save_vocabulary self d p fs) = snd (save (model (tokenizer self)) d p fs)
   \<and> (fst (save_vocabulary self d p fs) = Inl e
        \<longleftrightarrow> fst (save (model (tokenizer self)) d p fs) = Inl e)
   \<and> all_or_nothing fs (snd (save_vocabulary self d p fs)) vp mp
       = all_or_nothing fs (snd (save (model (tokenizer self)) d p fs)) vp mp"
  by (simp add: save_vocabulary_def split: prod.splits sum.splits)

section \<open>Properties of the engine\<close>

subsection \<open>The scan selects the lowest, leftmost pair\<close>

lemma has_rank_Cons:
  "has_rank t (a # b # xs) j q \<longleftrightarrow>
     (j = 0 \<and> rankOf t a b = Some q) \<or> (\<exists>k. j = Suc k \<and> has_rank t (b # xs) k q)"
  by (cases j) (auto simp: has_rank_def)

lemma lowest_pair_None: "lowest_pair t xs = None \<Longrightarrow> no_ranked_pair t xs"
proof (induction t xs rule: lowest_pair.induct)
  case (1 t a b xs)
  then show ?case
    by (auto simp: no_ranked_pair_def has_rank_Cons split: option.splits if_splits)
qed (auto simp: no_ranked_pair_def has_rank_def)

lemma lowest_pair_Some: "lowest_pair t xs = Some (i, r) \<Longrightarrow> lowest_leftmost t xs i r"
proof (induction t xs arbitrary: i r rule: lowest_pair.induct)
  case (1 t a b xs)
  show ?case
  proof (cases "lowest_pair t (b # xs)")
    case None
    then have "no_ranked_pair t (b # xs)" by (rule lowest_pair_None)
    with None "1.prems" show ?thesis
      by (auto simp: lowest_leftmost_def no_ranked_pair_def has_rank_Cons split: option.splits)
  next
    case (Some p)
    obtain j q where p: "p = (j, q)" by (cases p)
    with Some "1.IH" have "lowest_leftmost t (b # xs) j q"
      by (cases "rankOf t a b") auto
    with Some p "1.prems" show ?thesis
      by (fastforce simp: lowest_leftmost_def has_rank_Cons split: option.splits if_splits)
  qed
qed simp_all

lemma lowest_leftmost_unique:
  "lowest_leftmost t xs i r \<Longrightarrow> lowest_leftmost t xs i' r' \<Longrightarrow> i = i' \<and> r = r'"
  by (fastforce simp: lowest_leftmost_def)

lemma lowest_pair_Some_iff: "lowest_pair t xs = Some (i, r) \<longleftrightarrow> lowest_leftmost t xs i r"
proof
  assume "lowest_pair t xs = Some (i, r)"
  then show "lowest_leftmost t xs i r" by (rule lowest_pair_Some)
next
  assume sel: "lowest_leftmost t xs i r"
  show "lowest_pair t xs = Some (i, r)"
  proof (cases "lowest_pair t xs")
    case None
    then have "no_ranked_pair t xs" by (rule lowest_pair_None)
    with sel show ?thesis by (simp add: lowest_leftmost_def no_ranked_pair_def)
  next
    case (Some p)
    obtain j q where p: "p = (j, q)" by (cases p)
    with Some have "lowest_leftmost t xs j q" by (simp add: lowest_pair_Some)
    with sel have "i = j \<and> r = q" by (rule lowest_leftmost_unique)
    with Some p show ?thesis by simp
  qed
qed

lemma lowest_pair_None_iff: "lowest_pair t xs = None \<longleftrightarrow> no_ranked_pair t xs"
proof
  assume "lowest_pair t xs = None"
  then show "no_ranked_pair t xs" by (rule lowest_pair_None)
next
  assume none: "no_ranked_pair t xs"
  show "lowest_pair t xs = None"
  proof (cases "lowest_pair t xs")
    case (Some p)
    obtain j q where "p = (j, q)" by (cases p)
    with Some have "lowest_leftmost t xs j q" by (simp add: lowest_pair_Some)
    with none show ?thesis by (simp add: lowest_leftmost_def no_ranked_pair_def)
  qed simp
qed

lemma merge_at_nth:
  "Suc i < length xs \<Longrightarrow> merge_at i xs = take i xs @ [xs ! i @ xs ! Suc i] @ drop (i + 2) xs"
  by (induction i xs rule: merge_at.induct) auto

lemma merge_loop_stop: "merge_step t xs = None \<Longrightarrow> merge_loop t xs = (xs, 0)"
  by (simp add: merge_loop.simps)

lemma merge_loop_go:
  "merge_step t xs = Some ys \<Longrightarrow>
     merge_loop t xs = (fst (merge_loop t ys), Suc (snd (merge_loop t ys)))"
  by (simp add: merge_loop.simps [of t xs] split: prod.splits)

text \<open>
  Claim C3. In every step of the merge loop the scan finds a pair exactly when it is the
  pair of the globally lowest rank among the adjacent pairs with a rank, the leftmost
  one of that rank; the loop then merges the two symbols of that pair into one and
  goes on with the shorter sequence. The scan finds nothing exactly when no adjacent
  pair has a rank, and the loop then ends with the sequence unchanged.
\<close>

theorem merge_loop_lowest_leftmost:
  "(lowest_pair t xs = Some (i, r) \<longleftrightarrow> lowest_leftmost t xs i r)
   \<and> (lowest_pair t xs = None \<longleftrightarrow> no_ranked_pair t xs)
   \<and> (lowest_leftmost t xs i r \<longrightarrow>
        merge_at i xs = take i xs @ [xs ! i @ xs ! Suc i] @ drop (i + 2) xs
        \<and> merge_loop t xs =
            (fst (merge_loop t (merge_at i xs)), Suc (snd (merge_loop t (merge_at i xs)))))
   \<and> (no_ranked_pair t xs \<longrightarrow> merge_loop t xs = (xs, 0))"
proof (intro conjI impI)
  show "lowest_pair t xs = Some (i, r) \<longleftrightarrow> lowest_leftmost t xs i r"
    by (rule lowest_pair_Some_iff)
  show "lowest_pair t xs = None \<longleftrightarrow> no_ranked_pair t xs"
    by (rule lowest_pair_None_iff)
next
  assume sel: "lowest_leftmost t xs i r"
  then have "Suc i < length xs" by (simp add: lowest_leftmost_def has_rank_def)
  then show "merge_at i xs = take i xs @ [xs ! i @ xs ! Suc i] @ drop (i + 2) xs"
    by (rule merge_at_nth)
  from sel have "merge_step t xs = Some (merge_at i xs)"
    by (simp add: merge_step_def lowest_pair_Some_iff [symmetric])
  then show "merge_loop t xs =
      (fst (merge_loop t (merge_at i xs)), Suc (snd (merge_loop t (merge_at i xs))))"
    by (rule merge_loop_go)
next
  assume "no_ranked_pair t xs"
  then have "merge_step t xs = None"
    by (simp add: merge_step_def lowest_pair_None_iff [symmetric])
  then show "merge_loop t xs = (xs, 0)" by (rule merge_loop_stop)
qed

text \<open>
  An instance with a tie: in \<open>a b c\<close> both pairs have rank 0, and the left one is
  merged; \<open>ab c\<close> has no pair with a rank, where the loop ends after this one step.
\<close>

theorem merge_loop_lowest_leftmost_witness:
  "lowest_leftmost [((''a'', ''b''), 0), ((''b'', ''c''), 0)] [''a'', ''b'', ''c''] 0 0
   \<and> merge_at 0 [''a'', ''b'', ''c''] = [''ab'', ''c'']
   \<and> no_ranked_pair [((''a'', ''b''), 0), ((''b'', ''c''), 0)] [''ab'', ''c'']
   \<and> merge_loop [((''a'', ''b''), 0), ((''b'', ''c''), 0)] [''a'', ''b'', ''c'']
       = ([''ab'', ''c''], 1)"
proof -
  let ?t = "[((''a'', ''b''), 0::nat), ((''b'', ''c''), 0)]"
  have scan: "lowest_pair ?t [''a'', ''b'', ''c''] = Some (0, 0)"
    by (simp add: rankOf_def)
  have scan': "lowest_pair ?t [''ab'', ''c''] = None"
    by (simp add: rankOf_def)
  from scan merge_loop_lowest_leftmost [of ?t "[''a'', ''b'', ''c'']" 0 0]
  have selected: "lowest_leftmost ?t [''a'', ''b'', ''c''] 0 0"
    and loop: "merge_loop ?t [''a'', ''b'', ''c''] =
      (fst (merge_loop ?t (merge_at 0 [''a'', ''b'', ''c''])),
       Suc (snd (merge_loop ?t (merge_at 0 [''a'', ''b'', ''c'']))))"
    by simp_all
  from scan' merge_loop_lowest_leftmost [of ?t "[''ab'', ''c'']" 0 0]
  have terminal: "no_ranked_pair ?t [''ab'', ''c'']"
    and stopped: "merge_loop ?t [''ab'', ''c''] = ([''ab'', ''c''], 0)"
    by simp_all
  from selected terminal loop stopped show ?thesis by simp
qed

subsection \<open>The merge loop is bounded by the length of the word\<close>

lemma merge_loop_length:
  "length (fst (merge_loop t xs)) + snd (merge_loop t xs) = length xs"
proof (induction t xs rule: merge_loop.induct)
  case (1 t xs)
  show ?case
  proof (cases "merge_step t xs")
    case None
    then show ?thesis by (simp add: merge_loop_stop)
  next
    case (Some ys)
    with "1.IH" have "length (fst (merge_loop t ys)) + snd (merge_loop t ys) = length ys"
      by simp
    moreover from Some have "Suc (length ys) = length xs" by (rule merge_step_shorter)
    ultimately show ?thesis using Some by (simp add: merge_loop_go)
  qed
qed

lemma merge_loop_nonempty: "xs \<noteq> [] \<Longrightarrow> fst (merge_loop t xs) \<noteq> []"
proof (induction t xs rule: merge_loop.induct)
  case (1 t xs)
  show ?case
  proof (cases "merge_step t xs")
    case None
    with "1.prems" show ?thesis by (simp add: merge_loop_stop)
  next
    case (Some ys)
    then have "Suc (length ys) = length xs" by (rule merge_step_shorter)
    moreover from Some have "Suc 0 < length xs"
      by (auto simp: merge_step_def split: option.splits dest: lowest_pair_in_range)
    ultimately have "ys \<noteq> []" by auto
    with "1.IH" Some have "fst (merge_loop t ys) \<noteq> []" by simp
    with Some show ?thesis by (simp add: merge_loop_go)
  qed
qed

lemma merge_loop_final: "merge_step t (fst (merge_loop t xs)) = None"
proof (induction t xs rule: merge_loop.induct)
  case (1 t xs)
  show ?case
  proof (cases "merge_step t xs")
    case None
    then show ?thesis by (simp add: merge_loop_stop)
  next
    case (Some ys)
    with "1.IH" have "merge_step t (fst (merge_loop t ys)) = None" by simp
    with Some show ?thesis by (simp add: merge_loop_go)
  qed
qed

lemma merge_loop_steps: "snd (merge_loop t xs) \<le> length xs - 1"
proof (cases "xs = []")
  case True
  then show ?thesis by (simp add: merge_loop_stop merge_step_def)
next
  case False
  then have "fst (merge_loop t xs) \<noteq> []" by (rule merge_loop_nonempty)
  then have "1 \<le> length (fst (merge_loop t xs))"
    by (cases "fst (merge_loop t xs)") auto
  with merge_loop_length [of t xs] show ?thesis by arith
qed

lemma length_word_symbols: "length (word_symbols marker w) = length w"
  by (induction marker w rule: word_symbols.induct) auto

text \<open>
  Claim C8. For every word the merge loop returns, after at most \<open>|word| - 1\<close> merge
  steps: the number of steps it reports is the number of symbols that disappeared, it
  is at most the length of the word minus one, and the sequence it returns is terminal
  (no further transition applies). So every encode call returns a value.
\<close>

theorem merge_loop_terminates_within_length:
  "snd (merge_loop t (word_symbols marker w)) \<le> length w - 1
   \<and> snd (merge_loop t xs) \<le> length xs - 1
   \<and> length (fst (merge_loop t xs)) + snd (merge_loop t xs) = length xs
   \<and> merge_step t (fst (merge_loop t xs)) = None
   \<and> (\<exists>ids. encode e text = Inr ids)"
proof -
  have "snd (merge_loop t (word_symbols marker w)) \<le> length (word_symbols marker w) - 1"
    by (rule merge_loop_steps)
  then have word: "snd (merge_loop t (word_symbols marker w)) \<le> length w - 1"
    by (simp add: length_word_symbols)
  have steps: "snd (merge_loop t xs) \<le> length xs - 1"
    by (rule merge_loop_steps)
  have len: "length (fst (merge_loop t xs)) + snd (merge_loop t xs) = length xs"
    by (rule merge_loop_length)
  have final: "merge_step t (fst (merge_loop t xs)) = None"
    by (rule merge_loop_final)
  have returns: "\<exists>ids. encode e text = Inr ids"
    by (simp add: encode_def)
  from word steps len final returns show ?thesis by blast
qed

subsection \<open>Unknown symbols\<close>

text \<open>
  Claim C1. For every engine and every text, \<open>encode\<close> returns normally, and what it
  returns are the ids of the symbols the merge loop produced for the word units of the
  text, where a symbol that is absent from the Vocabulary Table has the configured
  unknown-token id and a symbol that is present has its own id.
\<close>

theorem encode_unknown_fallback:
  "(\<exists>ids. encode e text = Inr ids)
   \<and> encode e text = Inr (map (token_id e) (concat (map (bpe e) (pre_tokenize e text))))
   \<and> (tokenToId (vocab e) s = None \<longrightarrow> token_id e s = unk_id e)
   \<and> (tokenToId (vocab e) s = Some i \<longrightarrow> token_id e s = i)"
  by (simp add: encode_def token_id_def map_concat comp_def)

text \<open>
  An instance: in the example engine \<open>abd\<close> becomes the symbols \<open>ab\<close> and \<open>d</w>\<close>;
  the second one is not in the vocabulary and gets the unknown-token id 2.
\<close>

theorem encode_unknown_fallback_witness:
  "tokenToId (vocab example_engine) ''d</w>'' = None
   \<and> token_id example_engine ''d</w>'' = 2
   \<and> concat (map (bpe example_engine) (pre_tokenize example_engine ''abd'')) = [''ab'', ''d</w>'']
   \<and> encode example_engine ''abd'' = Inr [0, 2]"
proof -
  have miss: "tokenToId (vocab example_engine) ''d</w>'' = None"
    by (simp add: example_engine_def example_vocab_def tokenToId_def)
  have unk: "unk_id example_engine = 2"
    by (simp add: example_engine_def)
  have hit: "tokenToId (vocab example_engine) ''ab'' = Some 0"
    by (simp add: example_engine_def example_vocab_def tokenToId_def)
  have syms: "concat (map (bpe example_engine) (pre_tokenize example_engine ''abd''))
      = [''ab'', ''d</w>'']"
    by (simp add: example_engine_def example_merges_def bpe_def merge_loop.simps
        merge_step_def rankOf_def)
  from encode_unknown_fallback [of example_engine "''abd''" "''d</w>''" 0] miss unk
  have a: "token_id example_engine ''d</w>'' = 2"
    and enc: "encode example_engine ''abd''
      = Inr (map (token_id example_engine)
          (concat (map (bpe example_engine) (pre_tokenize example_engine ''abd''))))"
    by simp_all
  from encode_unknown_fallback [of example_engine "''abd''" "''ab''" 0] hit
  have b: "token_id example_engine ''ab'' = 0" by simp
  from miss a b syms enc show ?thesis by simp
qed

subsection \<open>Determinism\<close>

lemma bpe_transition_iff: "bpe_transition t xs ys \<longleftrightarrow> merge_step t xs = Some ys"
  by (auto simp: bpe_transition.simps merge_step_def lowest_pair_Some_iff [symmetric]
      split: option.splits)

lemma no_ranked_pair_iff: "no_ranked_pair t xs \<longleftrightarrow> merge_step t xs = None"
  by (auto simp: merge_step_def lowest_pair_None_iff [symmetric] split: option.splits)

lemma bpe_run_result: "bpe_run t xs zs \<Longrightarrow> zs = fst (merge_loop t xs)"
proof (induction rule: bpe_run.induct)
  case (stop xs)
  then show ?case by (simp add: no_ranked_pair_iff merge_loop_stop)
next
  case (step xs ys zs)
  then show ?case by (simp add: bpe_transition_iff merge_loop_go)
qed

lemma bpe_run_merge_loop: "bpe_run t xs (fst (merge_loop t xs))"
proof (induction t xs rule: merge_loop.induct)
  case (1 t xs)
  show ?case
  proof (cases "merge_step t xs")
    case None
    then show ?thesis by (simp add: merge_loop_stop bpe_run.stop no_ranked_pair_iff)
  next
    case (Some ys)
    with "1.IH" have "bpe_run t ys (fst (merge_loop t ys))" by simp
    moreover from Some have "bpe_transition t xs ys" by (simp add: bpe_transition_iff)
    ultimately have "bpe_run t xs (fst (merge_loop t ys))" by (rule bpe_run.step [rotated])
    with Some show ?thesis by (simp add: merge_loop_go)
  qed
qed

lemma bpe_run_iff: "bpe_run t xs zs \<longleftrightarrow> zs = fst (merge_loop t xs)"
  using bpe_run_result bpe_run_merge_loop by blast

lemma list_all2_fun: "list_all2 (\<lambda>x y. y = f x) xs ys \<longleftrightarrow> ys = map f xs"
  by (induction xs arbitrary: ys) (auto simp: list_all2_Cons1)

lemma encodes_iff: "encodes e text ids \<longleftrightarrow> encode e text = Inr ids"
  by (auto simp: encodes_def encode_def bpe_run_iff list_all2_fun bpe_def [abs_def] comp_def)

text \<open>
  Claim C2. \<open>encode\<close> is deterministic: whenever two encode calls of the same engine
  (the same vocabulary and merge-rank tables) on the same text run the state machine
  to the end, they produce the same sequence of ids; the state machine leaves no
  choice, and its only outcome is the value of \<open>encode\<close>, which depends on nothing but
  the engine and the text.
\<close>

theorem encode_deterministic:
  "(encodes e text ids \<and> encodes e text ids' \<longrightarrow> ids = ids')
   \<and> (encodes e text ids \<longleftrightarrow> encode e text = Inr ids)"
  by (auto simp: encodes_iff)

theorem encode_deterministic_witness:
  "encodes example_engine ''abc abd'' [2, 0, 2]
   \<and> encode example_engine ''abc abd'' = Inr [2, 0, 2]"
proof -
  have "encode example_engine ''abc abd'' = Inr [2, 0, 2]"
    by (simp add: example_engine_def example_merges_def example_vocab_def encode_def bpe_def
        merge_loop.simps merge_step_def rankOf_def token_id_def tokenToId_def)
  with encode_deterministic [of example_engine "''abc abd''" "[2, 0, 2]" "[2, 0, 2]"]
  show ?thesis by simp
qed

subsection \<open>Saving and loading the tables\<close>

lemma member_entries: "those (map (member_entry \<circ> entry_member) xs) = Some xs"
  by (induction xs) auto

lemma distinct_map_sort_key: "distinct (map f (sort_key g xs)) = distinct (map f xs)"
  by (simp add: distinct_map)

lemma map_of_sort_key:
  assumes "distinct (map fst xs)"
  shows "map_of (sort_key g xs) = map_of xs"
proof -
  have "distinct (map fst (sort_key g xs))"
    using assms by (simp add: distinct_map_sort_key)
  then show ?thesis using assms by (simp add: map_of_inject_set)
qed

lemma vocab_parse_json:
  assumes "unique_ids v"
  shows "vocab_parse (vocab_json v) = Inr (sort_key snd v)"
  using assms
  by (simp add: unique_ids_def vocab_parse_def vocab_json_def member_entries
      distinct_map_sort_key)

lemma split_on_no_sep: "c \<notin> set xs \<Longrightarrow> split_on c xs = [xs]"
  by (induction xs) auto

lemma split_on_append: "c \<notin> set xs \<Longrightarrow> split_on c (xs @ c # ys) = xs # split_on c ys"
  by (induction xs) auto

lemma parse_rule_line:
  "separator_free left \<Longrightarrow> separator_free right \<Longrightarrow>
     parse_rule (rule_line ((left, right), k)) = Some (left, right)"
  by (simp add: parse_rule_def separator_free_def split_on_append split_on_no_sep)

lemma parse_rules:
  "symbols_separator_free xs \<Longrightarrow>
     those (map (parse_rule \<circ> rule_line) xs) = Some (map fst xs)"
  unfolding symbols_separator_free_def
  by (induction xs) (auto simp: parse_rule_line simp del: rule_line.simps)

lemma text_lines_line:
  "CHR 0x0A \<notin> set l \<Longrightarrow> text_lines (l @ CHR 0x0A # rest) = l # text_lines rest"
  by (induction l) auto

lemma text_lines_lines_text:
  "list_all (\<lambda>l. CHR 0x0A \<notin> set l) ls \<Longrightarrow> text_lines (lines_text ls) = ls"
  by (induction ls) (auto simp: lines_text_def text_lines_line)

lemma rule_line_no_newline:
  "separator_free left \<Longrightarrow> separator_free right \<Longrightarrow>
     CHR 0x0A \<notin> set (rule_line ((left, right), k))"
  by (simp add: separator_free_def)

lemma rule_lines_no_newline:
  "symbols_separator_free xs \<Longrightarrow> list_all (\<lambda>l. CHR 0x0A \<notin> set l) (map rule_line xs)"
  unfolding symbols_separator_free_def
  by (induction xs) (auto simp: rule_line_no_newline simp del: rule_line.simps)

lemma sort_key_sorted: "sorted (map f xs) \<Longrightarrow> sort_key f xs = xs"
  by (induction xs) (auto simp: insort_is_Cons)

lemma sort_key_rank_table: "sort_key snd (rank_table rules) = rank_table rules"
  by (rule sort_key_sorted) (simp add: rank_table_def)

lemma map_fst_rank_table: "map fst (rank_table rules) = rules"
  by (simp add: rank_table_def)

lemma merges_text_lines:
  assumes "symbols_separator_free m"
  shows "text_lines (lines_text (merges_lines m)) = merges_lines m"
proof -
  have "symbols_separator_free (sort_key snd m)"
    using assms by (simp add: symbols_separator_free_def list_all_iff)
  then have "list_all (\<lambda>l. CHR 0x0A \<notin> set l) (map rule_line (sort_key snd m))"
    by (rule rule_lines_no_newline)
  then have "list_all (\<lambda>l. CHR 0x0A \<notin> set l) (merges_lines m)"
    by (simp add: merges_lines_def)
  then show ?thesis by (rule text_lines_lines_text)
qed

lemma merges_parse_lines:
  assumes "distinct rules" "symbols_separator_free (rank_table rules)"
  shows "merges_parse (merges_lines (rank_table rules)) = Inr (rank_table rules)"
proof -
  from assms(2)
  have "those (map (parse_rule \<circ> rule_line) (rank_table rules))
      = Some (map fst (rank_table rules))"
    by (rule parse_rules)
  then have "those (map (parse_rule \<circ> rule_line) (rank_table rules)) = Some rules"
    by (simp only: map_fst_rank_table)
  with assms(1) show ?thesis
    by (simp add: merges_parse_def merges_lines_def is_version_header_def
        sort_key_rank_table)
qed

text \<open>
  Claim C7, as stated, fails for the Merge Rank Table. The merges file is a
  newline-delimited text of lines \<open>left right\<close>. A table with unique ids in which a
  symbol contains a space, or a newline, is saved to a text whose lines \<open>load\<close> does not
  accept as rules: it fails with \<open>FormatError\<close>.
\<close>

theorem merges_round_trip_fails:
  "unique_ids (rank_table [(''a b'', ''c'')])
   \<and> merges_load (fst (merges_save (rank_table [(''a b'', ''c'')]) ''out'' None Map.empty))
        (snd (merges_save (rank_table [(''a b'', ''c'')]) ''out'' None Map.empty))
       = Inl FormatError
   \<and> unique_ids (rank_table [([CHR ''a'', CHR 0x0A, CHR ''b''], ''c'')])
   \<and> merges_load
        (fst (merges_save (rank_table [([CHR ''a'', CHR 0x0A, CHR ''b''], ''c'')])
               ''out'' None Map.empty))
        (snd (merges_save (rank_table [([CHR ''a'', CHR 0x0A, CHR ''b''], ''c'')])
               ''out'' None Map.empty))
       = Inl FormatError"
  by (simp add: unique_ids_def rank_table_def merges_load_def merges_save_def Let_def
      file_path_def merges_parse_def merges_lines_def lines_text_def is_version_header_def
      parse_rule_def)

text \<open>
  Claim C7, amended. For every Vocabulary Table with unique ids, loading the file that
  \<open>save\<close> wrote yields the entries of the table in the order of the ids, which is the
  same table: every token has the id it had. For every Merge Rank Table (the rules of a
  merge list, ranked by their position) with unique ids whose symbols contain neither a
  space nor a newline, loading the file that \<open>save\<close> wrote yields the table itself.
\<close>

theorem tables_round_trip:
  "(unique_ids v \<longrightarrow>
      vocab_load (fst (vocab_save v d p files)) (snd (vocab_save v d p files))
        = Inr (sort_key snd v)
      \<and> tokenToId (sort_key snd v) = tokenToId v)
   \<and> (unique_ids (rank_table rules) \<and> symbols_separator_free (rank_table rules) \<longrightarrow>
      merges_load (fst (merges_save (rank_table rules) d p files))
          (snd (merges_save (rank_table rules) d p files))
        = Inr (rank_table rules))"
proof (intro conjI impI)
  assume v: "unique_ids v"
  then show "vocab_load (fst (vocab_save v d p files)) (snd (vocab_save v d p files))
      = Inr (sort_key snd v)"
    by (simp add: vocab_load_def vocab_save_def Let_def vocab_parse_json)
  from v show "tokenToId (sort_key snd v) = tokenToId v"
    by (simp add: tokenToId_def [abs_def] unique_ids_def map_of_sort_key)
next
  assume m: "unique_ids (rank_table rules) \<and> symbols_separator_free (rank_table rules)"
  then have "distinct rules"
    by (simp add: unique_ids_def map_fst_rank_table)
  with m show "merges_load (fst (merges_save (rank_table rules) d p files))
      (snd (merges_save (rank_table rules) d p files)) = Inr (rank_table rules)"
    by (simp add: merges_load_def merges_save_def Let_def merges_text_lines
        merges_parse_lines)
qed

theorem tables_round_trip_witness:
  "unique_ids example_vocab
   \<and> vocab_load (fst (vocab_save example_vocab ''out'' None Map.empty))
        (snd (vocab_save example_vocab ''out'' None Map.empty))
       = Inr [(''ab'', 0), (''c</w>'', 1), (''<unk>'', 2)]
   \<and> unique_ids (rank_table [(''a'', ''b''), (''ab'', ''c</w>'')])
   \<and> symbols_separator_free (rank_table [(''a'', ''b''), (''ab'', ''c</w>'')])
   \<and> merges_load
        (fst (merges_save (rank_table [(''a'', ''b''), (''ab'', ''c</w>'')])
               ''out'' None Map.empty))
        (snd (merges_save (rank_table [(''a'', ''b''), (''ab'', ''c</w>'')])
               ''out'' None Map.empty))
       = Inr [((''a'', ''b''), 0), ((''ab'', ''c</w>''), 1)]"
proof -
  have v: "unique_ids example_vocab"
    by (simp add: unique_ids_def example_vocab_def)
  have t: "rank_table [(''a'', ''b''), (''ab'', ''c</w>'')]
      = [((''a'', ''b''), 0), ((''ab'', ''c</w>''), 1)]"
    by (simp add: rank_table_def upt_rec)
  have m: "unique_ids (rank_table [(''a'', ''b''), (''ab'', ''c</w>'')])
      \<and> symbols_separator_free (rank_table [(''a'', ''b''), (''ab'', ''c</w>'')])"
    by (simp add: t unique_ids_def symbols_separator_free_def separator_free_def)
  have sv: "sort_key snd example_vocab = [(''ab'', 0), (''c</w>'', 1), (''<unk>'', 2)]"
    by (simp add: example_vocab_def)
  from tables_round_trip
    [of example_vocab "''out''" None Map.empty "[(''a'', ''b''), (''ab'', ''c</w>'')]"]
    v m sv t
  show ?thesis by simp
qed

end
